theory Spec2Isabelle
  imports Complex_Main "HOL-Library.AList"
begin

section \<open>Python dictionaries\<close>

text \<open>
  A Python \<^verbatim>\<open>dict\<close> keeps its keys in insertion order, and that order is read by
  \<^verbatim>\<open>list(model_scores.values())\<close> in the ensemble. A dictionary is therefore an
  association list: \<open>AList.update\<close> overwrites the value of a key that is present
  in place and appends a new key at the end, as \<^verbatim>\<open>d[k] = v\<close> does.

  Python floats are read as the real numbers they denote and decimal literals as
  their decimal value; comparisons of floats are comparisons of reals.
\<close>

type_synonym ('k, 'v) dict = "('k \<times> 'v) list"

definition dict_get :: "('k, 'v) dict \<Rightarrow> 'k \<Rightarrow> 'v \<Rightarrow> 'v" where
  \<comment> \<open>\<^verbatim>\<open>d.get(k, default)\<close>\<close>
  "dict_get d k dflt = (case map_of d k of None \<Rightarrow> dflt | Some v \<Rightarrow> v)"

definition dict_values :: "('k, 'v) dict \<Rightarrow> 'v list" where
  \<comment> \<open>\<^verbatim>\<open>list(d.values())\<close>\<close>
  "dict_values d = map snd d"

section \<open>fraud-detection: \<^verbatim>\<open>models/ensemble.py\<close>\<close>

subsection \<open>\<^verbatim>\<open>FraudDetectionEnsemble.make_decision\<close>\<close>

definition make_decision :: "real \<Rightarrow> bool \<Rightarrow> (string, real) dict \<Rightarrow> string" where
  "make_decision risk_score is_anomaly model_scores =
     (if risk_score < 0.15 \<and>
         \<not> is_anomaly \<and>
         dict_get model_scores ''behavioral_biometrics'' 1 < 0.2 \<and>
         dict_get model_scores ''device_fingerprint'' 1 < 0.3
      then ''instant_approve''
      else if risk_score > 0.85 \<or>
              dict_get model_scores ''identity_graph'' 0 > 0.9 \<or>
              dict_get model_scores ''network_analysis'' 0 > 0.95
      then ''reject''
      else ''review'')"

subsection \<open>\<^verbatim>\<open>FraudDetectionEnsemble.evaluate\<close>\<close>

text \<open>
  A provider's \<^verbatim>\<open>predict_proba\<close> either returns a score or raises; the source has
  no timeout around the call. The provider models are opaque (their bodies are
  stubs in the source), so each is a function from the features to its outcome.
\<close>

datatype prediction = Score real | Raised

text \<open>
  The object \<^verbatim>\<open>self\<close>. The source calls \<^verbatim>\<open>extract_features\<close>, \<^verbatim>\<open>score_to_level\<close>,
  \<^verbatim>\<open>calculate_confidence\<close> and \<^verbatim>\<open>get_review_reasons\<close> on it but does not define
  them, and the meta classifier and the anomaly detector are fitted library
  objects; all of them are fields here. \<open>meta_predict_proba\<close> stands for
  \<^verbatim>\<open>meta_classifier.predict_proba(x)[0][1]\<close> and \<open>anomaly_predict\<close> for
  \<^verbatim>\<open>anomaly_detector.predict(x)[0]\<close> on the one-row matrix \<open>x\<close>.
\<close>

record ('c, 'h, 'f) ensemble =
  models :: "(string, 'f \<Rightarrow> prediction) dict"
  extract_features :: "'c \<Rightarrow> 'h \<Rightarrow> 'f"
  meta_predict_proba :: "real list \<Rightarrow> real"
  anomaly_predict :: "real list \<Rightarrow> int"
  score_to_level :: "real \<Rightarrow> string"
  calculate_confidence :: "(string, real) dict \<Rightarrow> real"
  get_review_reasons :: "(string, real) dict \<Rightarrow> string list"

definition init_models ::
  "('f \<Rightarrow> prediction) \<Rightarrow> ('f \<Rightarrow> prediction) \<Rightarrow> ('f \<Rightarrow> prediction) \<Rightarrow> ('f \<Rightarrow> prediction) \<Rightarrow>
   ('f \<Rightarrow> prediction) \<Rightarrow> ('f \<Rightarrow> prediction) \<Rightarrow> ('f \<Rightarrow> prediction) \<Rightarrow> ('f \<Rightarrow> prediction) \<Rightarrow>
   (string, 'f \<Rightarrow> prediction) dict" where
  \<comment> \<open>\<^verbatim>\<open>self.models\<close> as \<^verbatim>\<open>__init__\<close> builds it, from the eight provider objects\<close>
  "init_models bb df vc ig cp na va ts =
     [(''behavioral_biometrics'', bb),
      (''device_fingerprint'', df),
      (''velocity_checks'', vc),
      (''identity_graph'', ig),
      (''claim_pattern'', cp),
      (''network_analysis'', na),
      (''video_analysis'', va),
      (''text_sentiment'', ts)]"

fun predict_models ::
  "(string, 'f \<Rightarrow> prediction) dict \<Rightarrow> 'f \<Rightarrow> (string, real) dict \<Rightarrow> (string, real) dict" where
  \<comment> \<open>the loop \<^verbatim>\<open>for name, model in self.models.items()\<close> with its \<^verbatim>\<open>try\<close>/\<^verbatim>\<open>except\<close>\<close>
  "predict_models [] features model_scores = model_scores"
| "predict_models ((name, model) # rest) features model_scores =
     predict_models rest features
       (case model features of
          Score score \<Rightarrow> AList.update name score model_scores
        | Raised \<Rightarrow> AList.update name 0.5 model_scores)"

record evaluation =
  risk_score :: real
  risk_level :: string
  confidence :: real
  is_anomaly :: bool
  model_breakdown :: "(string, real) dict"
  decision :: string
  review_reasons :: "string list"

definition evaluate :: "('c, 'h, 'f) ensemble \<Rightarrow> 'c \<Rightarrow> 'h \<Rightarrow> evaluation" where
  "evaluate self claim_data user_history =
     (let features = extract_features self claim_data user_history;
          model_scores = predict_models (models self) features [];
          ensemble_features = dict_values model_scores;
          final_risk_score = meta_predict_proba self ensemble_features;
          anomaly = (anomaly_predict self ensemble_features = - 1);
          dec = make_decision final_risk_score anomaly model_scores
      in \<lparr> risk_score = final_risk_score,
           risk_level = score_to_level self final_risk_score,
           confidence = calculate_confidence self model_scores,
           is_anomaly = anomaly,
           model_breakdown = model_scores,
           decision = dec,
           review_reasons = get_review_reasons self model_scores \<rparr>)"

section \<open>claims-service: \<^verbatim>\<open>app.py\<close>\<close>

subsection \<open>Data\<close>

datatype claim_type = Theft | Water_damage | Fire | Liability | Medical

fun claim_type_str :: "claim_type \<Rightarrow> string" where
  "claim_type_str Theft = ''theft''"
| "claim_type_str Water_damage = ''water_damage''"
| "claim_type_str Fire = ''fire''"
| "claim_type_str Liability = ''liability''"
| "claim_type_str Medical = ''medical''"

record claim_request =
  claim_id :: string
  policy_id :: string
  user_id :: string
  claim_type :: claim_type
  incident_date :: int
  description :: string
  estimated_amount :: real
  video_evidence_url :: "string option"
  photos :: "string list"
  location :: "(string, real) dict"

definition valid_claim_request :: "claim_request \<Rightarrow> bool" where
  \<comment> \<open>the field constraint \<^verbatim>\<open>Field(..., gt=0, lt=1000000)\<close>\<close>
  "valid_claim_request claim \<longleftrightarrow> 0 < estimated_amount claim \<and> estimated_amount claim < 1000000"

text \<open>The policy dictionary, with the three keys the service reads.\<close>

record policy =
  status :: string
  coverage_limits :: "(string, real) dict"
  deductible :: real

text \<open>
  The dictionary returned by the fraud-detection client, with the three keys the
  service reads (\<^verbatim>\<open>risk_level\<close>, \<^verbatim>\<open>confidence\<close>, \<^verbatim>\<open>score\<close>).
\<close>

record fraud_score =
  risk_level_fs :: string
  confidence_fs :: real
  score_fs :: real

record claim_response =
  claim_id_resp :: string
  status_resp :: string
  payout_amount :: "real option"
  processing_time_ms :: int
  confidence_score :: real
  next_steps :: string

record duplicate_check =
  is_duplicate :: bool
  similarity :: "real option"

datatype task =
  Process_instant_payout claim_request real
| Route_to_adjuster claim_request fraud_score

record kafka_event =
  claim_id_ev :: string
  amount_ev :: real
  fraud_score_ev :: real
  timestamp_ev :: string

datatype error = HTTPException nat string | ConnectionError

subsection \<open>The world the service acts on\<close>

text \<open>
  The Redis server: whether the client can reach it, its clock in seconds, the
  string keys written by \<^verbatim>\<open>SETEX\<close> with their expiry time, and the set keys with
  their members and their expiry time, if one was set. A key is gone once the
  clock reaches its expiry time. The members of a set are listed in the order in
  which \<^verbatim>\<open>smembers\<close> hands them to the loop. A member is the claim itself rather
  than its JSON text, and a cached policy is the policy rather than its JSON text.
\<close>

record redis =
  reachable :: bool
  clock :: nat
  strings :: "string \<Rightarrow> (policy \<times> nat) option"
  sets :: "string \<Rightarrow> (claim_request list \<times> nat option) option"

datatype call =
  Redis_get string
| Redis_setex string nat
| Redis_smembers string
| Redis_sadd string claim_request
| Redis_expire string nat
| Fetch_policy string
| Fraud_evaluate claim_request
| Add_task task
| Kafka_send string

text \<open>
  The state outside the request handler: the Redis server, the tasks handed to
  \<^verbatim>\<open>background_tasks\<close>, the messages handed to the Kafka producer, and the
  calls made to collaborators, oldest first.
\<close>

record world =
  redis_client :: redis
  background_tasks :: "task list"
  kafka_producer :: "(string \<times> kafka_event) list"
  calls :: "call list"

text \<open>
  Collaborators whose code is not part of the source: the similarity function,
  the policy service, the fraud-detection client, and the two readings of the
  wall clock (the value of \<^verbatim>\<open>get_elapsed_ms(start_time)\<close> at the return, and
  \<^verbatim>\<open>datetime.utcnow().isoformat()\<close>).
\<close>

record env =
  calculate_similarity :: "claim_request \<Rightarrow> claim_request \<Rightarrow> real"
  fetch_policy_from_service :: "string \<Rightarrow> policy option"
  fraud_detection_evaluate :: "claim_request \<Rightarrow> fraud_score"
  get_elapsed_ms :: int
  utcnow_isoformat :: string

subsection \<open>Actions: a result or a raised exception, and the world after\<close>

type_synonym 'a action = "world \<Rightarrow> (error + 'a) \<times> world"

definition ret :: "'a \<Rightarrow> 'a action" where
  "ret x w = (Inr x, w)"

definition raise :: "error \<Rightarrow> 'a action" where
  "raise e w = (Inl e, w)"

definition bnd :: "'a action \<Rightarrow> ('a \<Rightarrow> 'b action) \<Rightarrow> 'b action" where
  "bnd m f w = (case m w of (Inl e, w') \<Rightarrow> (Inl e, w') | (Inr x, w') \<Rightarrow> f x w')"

definition log_call :: "call \<Rightarrow> world \<Rightarrow> world" where
  "log_call c w = w\<lparr>calls := calls w @ [c]\<rparr>"

subsection \<open>The Redis commands the service issues\<close>

definition live :: "redis \<Rightarrow> nat option \<Rightarrow> bool" where
  "live r expiry = (case expiry of None \<Rightarrow> True | Some t \<Rightarrow> clock r < t)"

definition members :: "redis \<Rightarrow> string \<Rightarrow> claim_request list" where
  "members r key =
     (case sets r key of
        None \<Rightarrow> []
      | Some (ms, expiry) \<Rightarrow> if live r expiry then ms else [])"

definition redis_get :: "string \<Rightarrow> policy option action" where
  "redis_get key w =
     (let w1 = log_call (Redis_get key) w; r = redis_client w1
      in if \<not> reachable r then (Inl ConnectionError, w1)
         else (Inr (case strings r key of
                      None \<Rightarrow> None
                    | Some (v, t) \<Rightarrow> if clock r < t then Some v else None), w1))"

definition redis_setex :: "string \<Rightarrow> nat \<Rightarrow> policy \<Rightarrow> unit action" where
  "redis_setex key ttl v w =
     (let w1 = log_call (Redis_setex key ttl) w; r = redis_client w1
      in if \<not> reachable r then (Inl ConnectionError, w1)
         else (Inr (), w1\<lparr>redis_client := r\<lparr>strings := (strings r)(key \<mapsto> (v, clock r + ttl))\<rparr>\<rparr>))"

definition redis_smembers :: "string \<Rightarrow> claim_request list action" where
  "redis_smembers key w =
     (let w1 = log_call (Redis_smembers key) w; r = redis_client w1
      in if \<not> reachable r then (Inl ConnectionError, w1)
         else (Inr (members r key), w1))"

definition redis_sadd :: "string \<Rightarrow> claim_request \<Rightarrow> unit action" where
  "redis_sadd key v w =
     (let w1 = log_call (Redis_sadd key v) w; r = redis_client w1
      in if \<not> reachable r then (Inl ConnectionError, w1)
         else (Inr (),
               w1\<lparr>redis_client := r\<lparr>sets := (sets r)(key \<mapsto>
                 (case sets r key of
                    None \<Rightarrow> ([v], None)
                  | Some (ms, expiry) \<Rightarrow>
                      if live r expiry
                      then (if v \<in> set ms then ms else ms @ [v], expiry)
                      else ([v], None)))\<rparr>\<rparr>))"

definition redis_expire :: "string \<Rightarrow> nat \<Rightarrow> unit action" where
  "redis_expire key ttl w =
     (let w1 = log_call (Redis_expire key ttl) w; r = redis_client w1
      in if \<not> reachable r then (Inl ConnectionError, w1)
         else (Inr (),
               w1\<lparr>redis_client := r\<lparr>sets :=
                 (case sets r key of
                    None \<Rightarrow> sets r
                  | Some (ms, expiry) \<Rightarrow>
                      if live r expiry then (sets r)(key \<mapsto> (ms, Some (clock r + ttl)))
                      else sets r)\<rparr>\<rparr>))"

subsection \<open>The other collaborators\<close>

definition fetch_policy :: "env \<Rightarrow> string \<Rightarrow> policy option action" where
  "fetch_policy E pid w = (Inr (fetch_policy_from_service E pid), log_call (Fetch_policy pid) w)"

definition fraud_evaluate :: "env \<Rightarrow> claim_request \<Rightarrow> fraud_score action" where
  "fraud_evaluate E claim w = (Inr (fraud_detection_evaluate E claim), log_call (Fraud_evaluate claim) w)"

definition add_task :: "task \<Rightarrow> unit action" where
  "add_task t w = (Inr (), (log_call (Add_task t) w)\<lparr>background_tasks := background_tasks w @ [t]\<rparr>)"

definition kafka_send :: "string \<Rightarrow> kafka_event \<Rightarrow> unit action" where
  "kafka_send topic ev w =
     (Inr (), (log_call (Kafka_send topic) w)\<lparr>kafka_producer := kafka_producer w @ [(topic, ev)]\<rparr>)"

subsection \<open>\<^verbatim>\<open>validate_policy\<close>\<close>

definition validate_policy :: "env \<Rightarrow> string \<Rightarrow> string \<Rightarrow> policy option action" where
  "validate_policy E pid uid =
     (let cache_key = ''policy:'' @ pid
      in bnd (redis_get cache_key) (\<lambda>cached.
           case cached of
             Some p \<Rightarrow> ret (Some p)
           | None \<Rightarrow>
               bnd (fetch_policy E pid) (\<lambda>fetched.
                 case fetched of
                   None \<Rightarrow> ret None
                 | Some p \<Rightarrow> bnd (redis_setex cache_key 300 p) (\<lambda>_. ret (Some p)))))"

subsection \<open>\<^verbatim>\<open>check_duplicate_claim\<close>\<close>

fun find_duplicate ::
  "(claim_request \<Rightarrow> claim_request \<Rightarrow> real) \<Rightarrow> claim_request \<Rightarrow> claim_request list \<Rightarrow> real option" where
  \<comment> \<open>the loop over \<^verbatim>\<open>recent\<close>: the similarity of the first entry above 0.85, if any\<close>
  "find_duplicate sim claim [] = None"
| "find_duplicate sim claim (recent_claim # rest) =
     (let s = sim claim recent_claim
      in if s > 0.85 then Some s else find_duplicate sim claim rest)"

definition recent_claims_key :: "claim_request \<Rightarrow> string" where
  "recent_claims_key claim = ''user_claims:'' @ user_id claim @ '':30d''"

definition check_duplicate_claim :: "env \<Rightarrow> claim_request \<Rightarrow> duplicate_check action" where
  "check_duplicate_claim E claim =
     bnd (redis_smembers (recent_claims_key claim)) (\<lambda>recent.
       case find_duplicate (calculate_similarity E) claim recent of
         Some s \<Rightarrow> ret \<lparr>is_duplicate = True, similarity = Some s\<rparr>
       | None \<Rightarrow>
           bnd (redis_sadd (recent_claims_key claim) claim) (\<lambda>_.
           bnd (redis_expire (recent_claims_key claim) 2592000) (\<lambda>_.
           ret \<lparr>is_duplicate = False, similarity = None\<rparr>)))"

subsection \<open>\<^verbatim>\<open>calculate_payout\<close>\<close>

definition calculate_payout :: "claim_request \<Rightarrow> policy \<Rightarrow> real" where
  "calculate_payout claim pol =
     (let coverage_limit = dict_get (coverage_limits pol) (claim_type_str (claim_type claim)) 0;
          payout = min (estimated_amount claim) coverage_limit - deductible pol
      in max payout 0)"

subsection \<open>\<^verbatim>\<open>submit_claim\<close>\<close>

definition submit_claim :: "env \<Rightarrow> claim_request \<Rightarrow> claim_response action" where
  "submit_claim E claim =
     bnd (validate_policy E (policy_id claim) (user_id claim)) (\<lambda>validated.
       case validated of
         None \<Rightarrow> raise (HTTPException 400 ''Invalid or inactive policy'')
       | Some pol \<Rightarrow>
           if status pol \<noteq> ''active''
           then raise (HTTPException 400 ''Invalid or inactive policy'')
           else
             bnd (check_duplicate_claim E claim) (\<lambda>dup.
               if is_duplicate dup
               then ret \<lparr> claim_id_resp = claim_id claim,
                          status_resp = ''flagged'',
                          payout_amount = None,
                          processing_time_ms = get_elapsed_ms E,
                          confidence_score = 0,
                          next_steps = ''Claim flagged for manual review due to similarity to recent claim'' \<rparr>
               else
                 bnd (fraud_evaluate E claim) (\<lambda>fs.
                   if risk_level_fs fs = ''low'' \<and>
                      estimated_amount claim < 5000 \<and>
                      confidence_fs fs > 0.85 \<and>
                      claim_type claim \<in> set [Theft, Water_damage]
                   then
                     (let payout = calculate_payout claim pol
                      in bnd (add_task (Process_instant_payout claim payout)) (\<lambda>_.
                         bnd (kafka_send ''claims.instant_approved''
                                \<lparr> claim_id_ev = claim_id claim,
                                  amount_ev = payout,
                                  fraud_score_ev = score_fs fs,
                                  timestamp_ev = utcnow_isoformat E \<rparr>) (\<lambda>_.
                         ret \<lparr> claim_id_resp = claim_id claim,
                               status_resp = ''instant_approved'',
                               payout_amount = Some payout,
                               processing_time_ms = get_elapsed_ms E,
                               confidence_score = confidence_fs fs,
                               next_steps = ''Funds transferred to your account (2-3 business days)'' \<rparr>)))
                   else
                     bnd (add_task (Route_to_adjuster claim fs)) (\<lambda>_.
                     ret \<lparr> claim_id_resp = claim_id claim,
                           status_resp = ''under_review'',
                           payout_amount = None,
                           processing_time_ms = get_elapsed_ms E,
                           confidence_score = confidence_fs fs,
                           next_steps = ''A claims specialist will review your case within 24 hours'' \<rparr>))))"

section \<open>Concrete inputs\<close>

text \<open>
  The request of the schema example in \<^verbatim>\<open>ClaimRequest.Config\<close>, with an identifier
  and a location, and a policy that covers it.
\<close>

definition example_claim :: claim_request where
  "example_claim =
     \<lparr> claim_id = ''clm_0001'',
       policy_id = ''pol_123456789'',
       user_id = ''usr_987654321'',
       claim_type = Water_damage,
       incident_date = 1705329000,
       description = ''Pipe burst in kitchen causing floor damage'',
       estimated_amount = 3500,
       video_evidence_url = Some ''s3://lemonade-claims-videos/claim_123.mp4'',
       photos = [],
       location = [(''lat'', 40.7128), (''lng'', - 74.0060)] \<rparr>"

definition example_policy :: policy where
  "example_policy =
     \<lparr> status = ''active'',
       coverage_limits = [(''theft'', 2000), (''water_damage'', 5000)],
       deductible = 500 \<rparr>"

text \<open>
  Collaborators for the example: a similarity that is 1 on equal descriptions and
  0 otherwise, a policy service that knows the one policy, and a fraud-detection
  client that reports low risk with confidence 0.95.
\<close>

definition example_env :: env where
  "example_env =
     \<lparr> calculate_similarity = (\<lambda>a b. if description a = description b then 1 else 0),
       fetch_policy_from_service = (\<lambda>pid. if pid = ''pol_123456789'' then Some example_policy else None),
       fraud_detection_evaluate = (\<lambda>_. \<lparr> risk_level_fs = ''low'', confidence_fs = 0.95, score_fs = 0.05 \<rparr>),
       get_elapsed_ms = 3000,
       utcnow_isoformat = ''2024-01-15T14:30:03'' \<rparr>"

definition empty_redis :: redis where
  "empty_redis = \<lparr> reachable = True, clock = 0, strings = (\<lambda>_. None), sets = (\<lambda>_. None) \<rparr>"

definition fresh_world :: world where
  "fresh_world = \<lparr> redis_client = empty_redis, background_tasks = [], kafka_producer = [], calls = [] \<rparr>"

definition unreachable_world :: world where
  "unreachable_world = fresh_world\<lparr>redis_client := empty_redis\<lparr>reachable := False\<rparr>\<rparr>"

text \<open>
  The world when the clock of the Redis server reads \<open>t\<close>: time passes between
  requests.
\<close>

definition at_time :: "nat \<Rightarrow> world \<Rightarrow> world" where
  "at_time t w = w\<lparr>redis_client := (redis_client w)\<lparr>clock := t\<rparr>\<rparr>"

text \<open>
  An ensemble whose meta classifier averages the provider scores, whose anomaly
  detector reports an inlier, and whose eight providers are given.
\<close>

definition example_ensemble ::
  "(string, unit \<Rightarrow> prediction) dict \<Rightarrow> (unit, unit, unit) ensemble" where
  "example_ensemble ms =
     \<lparr> models = ms,
       extract_features = (\<lambda>_ _. ()),
       meta_predict_proba = (\<lambda>xs. sum_list xs / 8),
       anomaly_predict = (\<lambda>_. 1),
       score_to_level = (\<lambda>s. if s < 0.3 then ''low'' else if s < 0.7 then ''medium'' else ''high''),
       calculate_confidence = (\<lambda>_. 0.9),
       get_review_reasons = (\<lambda>_. []) \<rparr>"

definition provider_raises :: "unit \<Rightarrow> prediction" where
  "provider_raises features = Raised"

definition provider_returns :: "real \<Rightarrow> unit \<Rightarrow> prediction" where
  "provider_returns s features = Score s"

section \<open>Unfolding rules and auxiliary facts\<close>

lemmas act_defs = ret_def raise_def bnd_def log_call_def
lemmas redis_defs = redis_get_def redis_setex_def redis_smembers_def redis_sadd_def redis_expire_def
lemmas collab_defs = fetch_policy_def fraud_evaluate_def add_task_def kafka_send_def
lemmas example_defs = example_claim_def example_policy_def example_env_def empty_redis_def
  fresh_world_def unreachable_world_def
lemmas service_defs = submit_claim_def validate_policy_def check_duplicate_claim_def
  calculate_payout_def recent_claims_key_def dict_get_def members_def live_def

lemma example_claim_valid: "valid_claim_request example_claim"
  by (simp add: valid_claim_request_def example_claim_def)

lemma update_fresh: "k \<notin> fst ` set acc \<Longrightarrow> AList.update k v acc = acc @ [(k, v)]"
  by (induction acc) auto

lemma predict_models_append:
  assumes "distinct (map fst ms)" and "fst ` set ms \<inter> fst ` set acc = {}"
  shows "predict_models ms f acc =
           acc @ map (\<lambda>(name, model). (name, case model f of Score s \<Rightarrow> s | Raised \<Rightarrow> 0.5)) ms"
  using assms
proof (induction ms arbitrary: acc)
  case Nil
  then show ?case by simp
next
  case (Cons p ms)
  obtain name model where p: "p = (name, model)" by (cases p)
  let ?v = "case model f of Score s \<Rightarrow> s | Raised \<Rightarrow> 0.5"
  from Cons.prems p have fresh: "name \<notin> fst ` set acc" by auto
  have step: "(case model f of Score s \<Rightarrow> AList.update name s acc | Raised \<Rightarrow> AList.update name 0.5 acc)
                = acc @ [(name, ?v)]"
    using fresh by (simp add: update_fresh split: prediction.splits)
  from Cons.prems p have d: "distinct (map fst ms)"
    and disj: "fst ` set ms \<inter> fst ` set (acc @ [(name, ?v)]) = {}"
    by auto
  show ?case
    unfolding p predict_models.simps step
    using Cons.IH [OF d disj] by simp
qed

lemma find_duplicate_None:
  "find_duplicate sim claim xs = None \<longleftrightarrow> (\<forall>e \<in> set xs. \<not> sim claim e > 0.85)"
  by (induction xs) (auto simp: Let_def)

lemma find_duplicate_Some:
  "find_duplicate sim claim xs = Some s \<Longrightarrow> s > 0.85 \<and> (\<exists>e \<in> set xs. s = sim claim e)"
  by (induction xs) (auto simp: Let_def split: if_splits)

lemma check_duplicate_claim_reachable:
  assumes "reachable (redis_client w)"
  shows "check_duplicate_claim E claim w =
     (case find_duplicate (calculate_similarity E) claim (members (redis_client w) (recent_claims_key claim)) of
        Some s \<Rightarrow> (Inr \<lparr>is_duplicate = True, similarity = Some s\<rparr>,
                   w\<lparr>calls := calls w @ [Redis_smembers (recent_claims_key claim)]\<rparr>)
      | None \<Rightarrow> (Inr \<lparr>is_duplicate = False, similarity = None\<rparr>,
                 w\<lparr>calls := calls w @ [Redis_smembers (recent_claims_key claim),
                                        Redis_sadd (recent_claims_key claim) claim,
                                        Redis_expire (recent_claims_key claim) 2592000],
                   redis_client := (redis_client w)\<lparr>sets := (sets (redis_client w))
                     (recent_claims_key claim \<mapsto>
                        (if claim \<in> set (members (redis_client w) (recent_claims_key claim))
                         then members (redis_client w) (recent_claims_key claim)
                         else members (redis_client w) (recent_claims_key claim) @ [claim],
                         Some (clock (redis_client w) + 2592000)))\<rparr>\<rparr>))"
  using assms
  by (auto simp: check_duplicate_claim_def act_defs redis_defs members_def live_def Let_def
           split: option.splits prod.splits)

lemma check_duplicate_claim_unreachable:
  assumes "\<not> reachable (redis_client w)"
  shows "check_duplicate_claim E claim w =
           (Inl ConnectionError, w\<lparr>calls := calls w @ [Redis_smembers (recent_claims_key claim)]\<rparr>)"
  using assms by (simp add: check_duplicate_claim_def act_defs redis_defs Let_def)

lemma validate_policy_unreachable:
  assumes "\<not> reachable (redis_client w)"
  shows "validate_policy E pid uid w =
           (Inl ConnectionError, w\<lparr>calls := calls w @ [Redis_get (''policy:'' @ pid)]\<rparr>)"
  using assms by (simp add: validate_policy_def act_defs redis_defs Let_def)

lemma validate_policy_frame:
  assumes "validate_policy E pid uid w = (res, w1)"
  shows "background_tasks w1 = background_tasks w \<and> kafka_producer w1 = kafka_producer w \<and>
         sets (redis_client w1) = sets (redis_client w) \<and>
         reachable (redis_client w1) = reachable (redis_client w) \<and>
         clock (redis_client w1) = clock (redis_client w) \<and>
         (\<exists>cs. calls w1 = calls w @ cs \<and> (\<forall>c. Fraud_evaluate c \<notin> set cs))"
  using assms
  by (auto simp: validate_policy_def act_defs redis_defs collab_defs Let_def
           split: prod.splits sum.splits option.splits if_splits)

lemma validate_policy_Inr_reachable:
  assumes "validate_policy E pid uid w = (Inr v, w1)"
  shows "reachable (redis_client w)"
  using assms validate_policy_unreachable [of w E pid uid] by (cases "reachable (redis_client w)") auto

lemma check_duplicate_claim_frame:
  assumes "check_duplicate_claim E claim w = (res, w1)"
  shows "background_tasks w1 = background_tasks w \<and> kafka_producer w1 = kafka_producer w \<and>
         strings (redis_client w1) = strings (redis_client w) \<and>
         reachable (redis_client w1) = reachable (redis_client w) \<and>
         clock (redis_client w1) = clock (redis_client w)"
  using assms
  by (auto simp: check_duplicate_claim_def act_defs redis_defs collab_defs Let_def
           split: prod.splits sum.splits option.splits if_splits)

text \<open>The stages of a submission that gets past the duplicate check.\<close>

lemma submit_claim_scored:
  assumes s: "submit_claim E claim w = (Inr r, w')" and nf: "status_resp r \<noteq> ''flagged''"
  shows "\<exists>pol w1 w2.
           validate_policy E (policy_id claim) (user_id claim) w = (Inr (Some pol), w1) \<and>
           status pol = ''active'' \<and>
           check_duplicate_claim E claim w1 = (Inr \<lparr>is_duplicate = False, similarity = None\<rparr>, w2) \<and>
           redis_client w' = redis_client w2 \<and>
           (\<exists>post. calls w' = calls w2 @ Fraud_evaluate claim # post)"
proof -
  obtain rv w1 where v: "validate_policy E (policy_id claim) (user_id claim) w = (rv, w1)"
    by (cases "validate_policy E (policy_id claim) (user_id claim) w")
  from s v obtain pol where rv: "rv = Inr (Some pol)" and act: "status pol = ''active''"
    by (auto simp: submit_claim_def act_defs split: sum.splits option.splits if_splits)
  from v rv have "reachable (redis_client w)" by (auto dest: validate_policy_Inr_reachable)
  with validate_policy_frame [OF v] have r1: "reachable (redis_client w1)" by simp
  obtain rd w2 where d: "check_duplicate_claim E claim w1 = (rd, w2)"
    by (cases "check_duplicate_claim E claim w1")
  from s v rv act d nf have rd: "rd = Inr \<lparr>is_duplicate = False, similarity = None\<rparr>"
    using check_duplicate_claim_reachable [OF r1, of E claim]
    by (auto simp: submit_claim_def act_defs split: sum.splits option.splits if_splits)
  from s v rv act d rd
  have "redis_client w' = redis_client w2 \<and> (\<exists>post. calls w' = calls w2 @ Fraud_evaluate claim # post)"
    by (auto simp: submit_claim_def act_defs collab_defs Let_def split: if_splits)
  with v rv act d rd show ?thesis by blast
qed






lemma members_after_register:
  "claim \<in> set (members (r\<lparr>sets := (sets r)(key \<mapsto>
      (if claim \<in> set ms then ms else ms @ [claim], Some (clock r + 2592000)))\<rparr>) key)"
  by (simp add: members_def live_def)

lemma check_duplicate_claim_not_duplicate:
  assumes r: "reachable (redis_client w)"
    and d: "check_duplicate_claim E claim w = (Inr dup, w2)"
    and nd: "\<not> is_duplicate dup"
  shows "calls w2 = calls w @ [Redis_smembers (recent_claims_key claim),
                               Redis_sadd (recent_claims_key claim) claim,
                               Redis_expire (recent_claims_key claim) 2592000]
       \<and> claim \<in> set (members (redis_client w2) (recent_claims_key claim))"
proof (cases "find_duplicate (calculate_similarity E) claim
                (members (redis_client w) (recent_claims_key claim))")
  case None
  with d check_duplicate_claim_reachable [OF r, of E claim]
  have w2: "w2 = w\<lparr>calls := calls w @ [Redis_smembers (recent_claims_key claim),
                                        Redis_sadd (recent_claims_key claim) claim,
                                        Redis_expire (recent_claims_key claim) 2592000],
                   redis_client := (redis_client w)\<lparr>sets := (sets (redis_client w))
                     (recent_claims_key claim \<mapsto>
                        (if claim \<in> set (members (redis_client w) (recent_claims_key claim))
                         then members (redis_client w) (recent_claims_key claim)
                         else members (redis_client w) (recent_claims_key claim) @ [claim],
                         Some (clock (redis_client w) + 2592000)))\<rparr>\<rparr>"
    by simp
  show ?thesis
    unfolding w2 using members_after_register [of claim "redis_client w"] by simp
next
  case (Some s)
  with d nd check_duplicate_claim_reachable [OF r, of E claim]
  show ?thesis by auto
qed







lemma at_time_simps:
  "reachable (redis_client (at_time t w)) = reachable (redis_client w)"
  "clock (redis_client (at_time t w)) = t"
  "sets (redis_client (at_time t w)) = sets (redis_client w)"
  by (simp_all add: at_time_def)

lemma check_duplicate_claim_registered:
  assumes r: "reachable (redis_client w)"
    and n: "find_duplicate (calculate_similarity E) claim
              (members (redis_client w) (recent_claims_key claim)) = None"
  shows "reachable (redis_client (snd (check_duplicate_claim E claim w))) \<and>
         sets (redis_client (snd (check_duplicate_claim E claim w))) (recent_claims_key claim) =
           Some (if claim \<in> set (members (redis_client w) (recent_claims_key claim))
                 then members (redis_client w) (recent_claims_key claim)
                 else members (redis_client w) (recent_claims_key claim) @ [claim],
                 Some (clock (redis_client w) + 2592000))"
  using check_duplicate_claim_reachable [OF r, of E claim] n r by simp

text \<open>
  An entry outlives its 30 days when a later claim is registered in between:
  whatever the similarity function, a claim \<open>c\<close> similar to \<open>a\<close> is reported as a
  duplicate at a time \<open>t2\<close> later than 2592000 seconds after \<open>a\<close> was registered,
  provided a claim \<open>b\<close> of the same claimant, not similar to \<open>a\<close>, was registered
  at a time \<open>t1\<close> within 2592000 seconds before \<open>t2\<close>.
\<close>

lemma stale_entry_compared:
  assumes r: "reachable (redis_client w)"
    and e: "members (redis_client w) (recent_claims_key a) = []"
    and ub: "user_id b = user_id a" and uc: "user_id c = user_id a"
    and sb: "\<not> calculate_similarity E b a > 0.85"
    and sc: "calculate_similarity E c a > 0.85"
    and t1: "t1 < clock (redis_client w) + 2592000"
    and t2: "clock (redis_client w) + 2592000 < t2" "t2 < t1 + 2592000"
  shows "fst (check_duplicate_claim E c
           (at_time t2 (snd (check_duplicate_claim E b
             (at_time t1 (snd (check_duplicate_claim E a w)))))))
         = Inr \<lparr>is_duplicate = True, similarity = Some (calculate_similarity E c a)\<rparr>"
proof -
  let ?k = "recent_claims_key a"
  have kb: "recent_claims_key b = ?k" and kc: "recent_claims_key c = ?k"
    using ub uc by (simp_all add: recent_claims_key_def)
  let ?w1 = "snd (check_duplicate_claim E a w)"
  let ?v1 = "at_time t1 ?w1"
  let ?w2 = "snd (check_duplicate_claim E b ?v1)"
  let ?v2 = "at_time t2 ?w2"
  have n1: "find_duplicate (calculate_similarity E) a (members (redis_client w) ?k) = None"
    by (simp add: e)
  from check_duplicate_claim_registered [OF r n1]
  have r1: "reachable (redis_client ?w1)"
    and s1: "sets (redis_client ?w1) ?k = Some ([a], Some (clock (redis_client w) + 2592000))"
    by (simp_all add: e)
  have rv1: "reachable (redis_client ?v1)" using r1 by (simp add: at_time_simps)
  have m1: "members (redis_client ?v1) ?k = [a]"
    using s1 t1 by (simp add: members_def live_def at_time_simps)
  have n2: "find_duplicate (calculate_similarity E) b (members (redis_client ?v1) (recent_claims_key b)) = None"
    using sb by (simp add: kb m1)
  from check_duplicate_claim_registered [OF rv1 n2]
  have r2: "reachable (redis_client ?w2)"
    and s2: "sets (redis_client ?w2) ?k =
               Some (if b = a then [a] else [a, b], Some (t1 + 2592000))"
    by (simp_all add: kb m1 at_time_simps)
  have rv2: "reachable (redis_client ?v2)" using r2 by (simp add: at_time_simps)
  have m2: "members (redis_client ?v2) ?k = (if b = a then [a] else [a, b])"
    using s2 t2 by (simp add: members_def live_def at_time_simps)
  have f3: "find_duplicate (calculate_similarity E) c (members (redis_client ?v2) (recent_claims_key c))
              = Some (calculate_similarity E c a)"
    using sc by (simp add: kc m2)
  from check_duplicate_claim_reachable [OF rv2, of E c] f3
  show ?thesis by simp
qed

section \<open>The decision rule\<close>

text \<open>
  Claim C1, as the code has it. The auto-approve test comes first and returns at
  once, so a score vector that meets all the approve criteria is answered
  \<^verbatim>\<open>instant_approve\<close> even when the identity-graph or the network-analysis score is
  above its reject threshold; the reject test is never reached for it.
\<close>

theorem make_decision_conflict_approves:
  assumes "risk < 0.15" and "\<not> anomaly"
    and "dict_get ms ''behavioral_biometrics'' 1 < 0.2"
    and "dict_get ms ''device_fingerprint'' 1 < 0.3"
    and "dict_get ms ''identity_graph'' 0 > 0.9 \<or> dict_get ms ''network_analysis'' 0 > 0.95"
  shows "make_decision risk anomaly ms = ''instant_approve''"
  using assms by (simp add: make_decision_def)

text \<open>
  Witness for C1: risk 0.05, no anomaly, biometrics 0.1, device 0.2 and a
  network-analysis score of 0.99.
\<close>

theorem make_decision_conflict_approves_witness:
  "(0.05::real) < 0.15 \<and>
   dict_get [(''behavioral_biometrics'', 0.1), (''device_fingerprint'', 0.2),
             (''network_analysis'', 0.99)] ''network_analysis'' (0::real) > 0.95 \<and>
   make_decision 0.05 False
     [(''behavioral_biometrics'', 0.1), (''device_fingerprint'', 0.2),
      (''network_analysis'', 0.99)] = ''instant_approve''"
proof -
  let ?ms = "[(''behavioral_biometrics'', 0.1), (''device_fingerprint'', 0.2),
              (''network_analysis'', 0.99)] :: (string, real) dict"
  have h1: "(0.05::real) < 0.15" and h2: "\<not> False" by simp_all
  have h3: "dict_get ?ms ''behavioral_biometrics'' 1 < 0.2"
    and h4: "dict_get ?ms ''device_fingerprint'' 1 < 0.3"
    and h5: "dict_get ?ms ''identity_graph'' 0 > 0.9 \<or> dict_get ?ms ''network_analysis'' 0 > 0.95"
    by (simp_all add: dict_get_def)
  from make_decision_conflict_approves [OF h1 h2 h3 h4 h5] h1 h5
  show ?thesis by (simp add: dict_get_def)
qed

text \<open>
  Claim C1, as the specification states it, fails: with risk 0.1, no anomaly,
  biometrics 0.1, device 0.1 and an identity-graph score of 0.95, the approve
  criteria and a reject criterion hold together and the decision is not
  \<^verbatim>\<open>review\<close>.
\<close>

theorem make_decision_conflict_counterexample:
  "(0.1::real) < 0.15 \<and>
   dict_get [(''behavioral_biometrics'', 0.1), (''device_fingerprint'', 0.1),
             (''identity_graph'', 0.95)] ''behavioral_biometrics'' (1::real) < 0.2 \<and>
   dict_get [(''behavioral_biometrics'', 0.1), (''device_fingerprint'', 0.1),
             (''identity_graph'', 0.95)] ''device_fingerprint'' (1::real) < 0.3 \<and>
   dict_get [(''behavioral_biometrics'', 0.1), (''device_fingerprint'', 0.1),
             (''identity_graph'', 0.95)] ''identity_graph'' (0::real) > 0.9 \<and>
   make_decision 0.1 False
     [(''behavioral_biometrics'', 0.1), (''device_fingerprint'', 0.1),
      (''identity_graph'', 0.95)] \<noteq> ''review''"
  by (simp add: make_decision_def dict_get_def)

text \<open>
  Claim C6. The approve thresholds are strict: with no anomaly, a biometrics score
  below 0.2 and a device score below 0.3, a risk score of exactly 0.15 is not
  answered \<^verbatim>\<open>instant_approve\<close>, and every risk score strictly below 0.15 is.
\<close>

theorem make_decision_threshold_strict:
  assumes "\<not> anomaly"
    and "map_of ms ''behavioral_biometrics'' = Some b" and "b < 0.2"
    and "map_of ms ''device_fingerprint'' = Some d" and "d < 0.3"
  shows "make_decision 0.15 anomaly ms \<noteq> ''instant_approve'' \<and>
         (\<forall>r. r < 0.15 \<longrightarrow> make_decision r anomaly ms = ''instant_approve'')"
  using assms by (simp add: make_decision_def dict_get_def)

text \<open>Witness for C6: biometrics 0.1, device 0.2, risk 0.15 against risk 0.1499.\<close>

theorem make_decision_threshold_strict_witness:
  "make_decision 0.15 False [(''behavioral_biometrics'', 0.1), (''device_fingerprint'', 0.2)]
     \<noteq> ''instant_approve'' \<and>
   make_decision 0.1499 False [(''behavioral_biometrics'', 0.1), (''device_fingerprint'', 0.2)]
     = ''instant_approve''"
proof -
  let ?ms = "[(''behavioral_biometrics'', 0.1), (''device_fingerprint'', 0.2)] :: (string, real) dict"
  have h1: "\<not> False" by simp
  have h2: "map_of ?ms ''behavioral_biometrics'' = Some 0.1"
    and h4: "map_of ?ms ''device_fingerprint'' = Some 0.2" by simp_all
  have h3: "(0.1::real) < 0.2" and h5: "(0.2::real) < 0.3" and h6: "(0.1499::real) < 0.15"
    by simp_all
  from make_decision_threshold_strict [OF h1 h2 h3 h4 h5] h6
  show ?thesis by blast
qed

text \<open>
  Claim C10. A score missing from the score vector is defaulted asymmetrically. A
  missing biometrics or device score counts as 1, and the decision is then never
  \<^verbatim>\<open>instant_approve\<close>. A missing identity-graph or network-analysis score counts
  as 0, and a \<^verbatim>\<open>reject\<close> is then due to the risk score or to the other hard signal.
\<close>

theorem make_decision_missing_scores:
  "(map_of ms ''behavioral_biometrics'' = None \<longrightarrow>
      make_decision r a ms = make_decision r a ((''behavioral_biometrics'', 1) # ms) \<and>
      make_decision r a ms \<noteq> ''instant_approve'') \<and>
   (map_of ms ''device_fingerprint'' = None \<longrightarrow>
      make_decision r a ms = make_decision r a ((''device_fingerprint'', 1) # ms) \<and>
      make_decision r a ms \<noteq> ''instant_approve'') \<and>
   (map_of ms ''identity_graph'' = None \<longrightarrow>
      make_decision r a ms = make_decision r a ((''identity_graph'', 0) # ms) \<and>
      (make_decision r a ms = ''reject'' \<longrightarrow>
         r > 0.85 \<or> dict_get ms ''network_analysis'' 0 > 0.95)) \<and>
   (map_of ms ''network_analysis'' = None \<longrightarrow>
      make_decision r a ms = make_decision r a ((''network_analysis'', 0) # ms) \<and>
      (make_decision r a ms = ''reject'' \<longrightarrow>
         r > 0.85 \<or> dict_get ms ''identity_graph'' 0 > 0.9))"
  by (simp add: make_decision_def dict_get_def)

text \<open>
  Witness for C10: the empty score vector, with risk 0.05 (every approve test
  that does not read the vector passes) and with risk 0.9 (rejected on the risk
  score alone).
\<close>

theorem make_decision_missing_scores_witness:
  "map_of ([] :: (string, real) dict) ''behavioral_biometrics'' = None \<and>
   make_decision 0.05 False [] = make_decision 0.05 False [(''behavioral_biometrics'', 1)] \<and>
   make_decision 0.05 False [] = make_decision 0.05 False [(''device_fingerprint'', 1)] \<and>
   make_decision 0.05 False [] \<noteq> ''instant_approve'' \<and>
   make_decision 0.9 False [] = make_decision 0.9 False [(''identity_graph'', 0)] \<and>
   make_decision 0.9 False [] = make_decision 0.9 False [(''network_analysis'', 0)] \<and>
   make_decision 0.9 False [] = ''reject'' \<and> (0.9::real) > 0.85"
proof -
  note lo = make_decision_missing_scores [of "[]" "0.05" False]
  note hi = make_decision_missing_scores [of "[]" "0.9" False]
  have e: "map_of ([] :: (string, real) dict) ''behavioral_biometrics'' = None" by simp
  have rej: "make_decision 0.9 False [] = ''reject''"
    by (simp add: make_decision_def dict_get_def)
  have ar: "(0.9::real) > 0.85" by simp
  have a1: "make_decision 0.05 False [] = make_decision 0.05 False [(''behavioral_biometrics'', 1)] \<and>
            make_decision 0.05 False [] \<noteq> ''instant_approve''"
    by (rule lo [THEN conjunct1, THEN mp]) simp
  have a2: "make_decision 0.05 False [] = make_decision 0.05 False [(''device_fingerprint'', 1)] \<and>
            make_decision 0.05 False [] \<noteq> ''instant_approve''"
    by (rule lo [THEN conjunct2, THEN conjunct1, THEN mp]) simp
  have b1: "make_decision 0.9 False [] = make_decision 0.9 False [(''identity_graph'', 0)]"
    by (rule hi [THEN conjunct2, THEN conjunct2, THEN conjunct1, THEN mp, THEN conjunct1]) simp
  have b2: "make_decision 0.9 False [] = make_decision 0.9 False [(''network_analysis'', 0)]"
    by (rule hi [THEN conjunct2, THEN conjunct2, THEN conjunct2, THEN mp, THEN conjunct1]) simp
  from e a1 a2 b1 b2 rej ar show ?thesis
    by (elim conjE) (intro conjI; assumption)
qed

section \<open>The evaluation over the providers\<close>

text \<open>
  Claim C7, as the code has it. A provider whose \<^verbatim>\<open>predict_proba\<close> raises
  contributes the plain number 0.5, with no mark that tells it from a returned
  0.5, and the source puts no timeout on the call. The evaluation completes all
  the same: the model breakdown has one score for every registered provider, in
  registration order, and the decision is the decision rule applied to the risk
  score, the anomaly flag and that breakdown.
\<close>

theorem evaluate_fail_open:
  assumes "distinct (map fst (models self))"
  shows "model_breakdown (evaluate self c h) =
           map (\<lambda>(name, model).
                  (name, case model (extract_features self c h) of Score s \<Rightarrow> s | Raised \<Rightarrow> 0.5))
               (models self)
       \<and> decision (evaluate self c h) =
           make_decision (risk_score (evaluate self c h)) (is_anomaly (evaluate self c h))
             (model_breakdown (evaluate self c h))
       \<and> decision (evaluate self c h) \<in> {''instant_approve'', ''reject'', ''review''}"
proof -
  have "predict_models (models self) (extract_features self c h) [] =
          [] @ map (\<lambda>(name, model).
                  (name, case model (extract_features self c h) of Score s \<Rightarrow> s | Raised \<Rightarrow> 0.5))
               (models self)"
    by (rule predict_models_append) (use assms in simp_all)
  then show ?thesis
    by (simp add: evaluate_def Let_def make_decision_def)
qed

text \<open>
  Witness for C7: the first provider raises and the other seven return 0.1.
\<close>

theorem evaluate_fail_open_witness:
  "distinct (map fst (models (example_ensemble
      (init_models provider_raises (provider_returns 0.1) (provider_returns 0.1)
         (provider_returns 0.1) (provider_returns 0.1) (provider_returns 0.1)
         (provider_returns 0.1) (provider_returns 0.1))))) \<and>
   model_breakdown (evaluate (example_ensemble
      (init_models provider_raises (provider_returns 0.1) (provider_returns 0.1)
         (provider_returns 0.1) (provider_returns 0.1) (provider_returns 0.1)
         (provider_returns 0.1) (provider_returns 0.1))) () ()) =
     [(''behavioral_biometrics'', 0.5), (''device_fingerprint'', 0.1), (''velocity_checks'', 0.1),
      (''identity_graph'', 0.1), (''claim_pattern'', 0.1), (''network_analysis'', 0.1),
      (''video_analysis'', 0.1), (''text_sentiment'', 0.1)]"
proof -
  let ?e = "example_ensemble
      (init_models provider_raises (provider_returns 0.1) (provider_returns 0.1)
         (provider_returns 0.1) (provider_returns 0.1) (provider_returns 0.1)
         (provider_returns 0.1) (provider_returns 0.1))"
  have h: "distinct (map fst (models ?e))"
    by (simp add: example_ensemble_def init_models_def)
  from evaluate_fail_open [OF h, of "()" "()"]
  have "model_breakdown (evaluate ?e () ()) =
          map (\<lambda>(name, model).
                 (name, case model (extract_features ?e () ()) of Score s \<Rightarrow> s | Raised \<Rightarrow> 0.5))
              (models ?e)"
    by (rule conjunct1)
  then show ?thesis
    using h by (simp add: example_ensemble_def init_models_def provider_raises_def provider_returns_def)
qed

text \<open>
  Claim C7, as the specification states it, fails on the tag: the evaluation in
  which the first provider raises is equal, field by field, to the evaluation in
  which that provider returns 0.5. Nothing in the result marks the provider as
  unavailable.
\<close>

theorem evaluate_untagged_counterexample:
  "evaluate (example_ensemble
      (init_models provider_raises (provider_returns 0.1) (provider_returns 0.1)
         (provider_returns 0.1) (provider_returns 0.1) (provider_returns 0.1)
         (provider_returns 0.1) (provider_returns 0.1))) () ()
   = evaluate (example_ensemble
      (init_models (provider_returns 0.5) (provider_returns 0.1) (provider_returns 0.1)
         (provider_returns 0.1) (provider_returns 0.1) (provider_returns 0.1)
         (provider_returns 0.1) (provider_returns 0.1))) () ()"
  by (simp add: evaluate_def example_ensemble_def init_models_def provider_raises_def
        provider_returns_def Let_def dict_values_def)

section \<open>The claims service\<close>

lemma submit_claim_tasks:
  assumes "submit_claim E claim w = (res, w')"
  shows "(\<exists>r pol. res = Inr r \<and> status_resp r = ''instant_approved'' \<and>
            payout_amount r = Some (calculate_payout claim pol) \<and>
            fst (validate_policy E (policy_id claim) (user_id claim) w) = Inr (Some pol) \<and>
            background_tasks w' =
              background_tasks w @ [Process_instant_payout claim (calculate_payout claim pol)])
       \<or> (\<exists>r. res = Inr r \<and> status_resp r = ''under_review'' \<and>
            background_tasks w' =
              background_tasks w @ [Route_to_adjuster claim (fraud_detection_evaluate E claim)])
       \<or> (\<exists>r. res = Inr r \<and> status_resp r = ''flagged'' \<and> background_tasks w' = background_tasks w)
       \<or> (\<exists>e. res = Inl e \<and> background_tasks w' = background_tasks w)"
proof -
  obtain rv w1 where v: "validate_policy E (policy_id claim) (user_id claim) w = (rv, w1)"
    by (cases "validate_policy E (policy_id claim) (user_id claim) w")
  obtain rd w2 where d: "check_duplicate_claim E claim w1 = (rd, w2)"
    by (cases "check_duplicate_claim E claim w1")
  from validate_policy_frame [OF v] have t1: "background_tasks w1 = background_tasks w" by simp
  from check_duplicate_claim_frame [OF d] have t2: "background_tasks w2 = background_tasks w1" by simp
  show ?thesis
    using assms v d t1 t2
    by (auto simp: submit_claim_def act_defs collab_defs Let_def
             split: prod.splits sum.splits option.splits if_splits)
qed

text \<open>
  Claim C3, as the code has it. When the Redis server cannot be reached, the
  duplicate check raises the client's connection error at its first command: it
  reports nothing and writes nothing. The request handler has no handler for the
  error and reads the policy cache from the same server first, so the
  submission ends with that error: no response, no index entry, no task.
\<close>

theorem submit_claim_unreachable:
  assumes "\<not> reachable (redis_client w)"
  shows "check_duplicate_claim E claim w =
           (Inl ConnectionError, w\<lparr>calls := calls w @ [Redis_smembers (recent_claims_key claim)]\<rparr>)
       \<and> submit_claim E claim w =
           (Inl ConnectionError, w\<lparr>calls := calls w @ [Redis_get (''policy:'' @ policy_id claim)]\<rparr>)"
  using assms
  by (simp add: check_duplicate_claim_unreachable validate_policy_unreachable submit_claim_def bnd_def)

text \<open>Witness for C3: the example claim against an unreachable server.\<close>

theorem submit_claim_unreachable_witness:
  "\<not> reachable (redis_client unreachable_world) \<and>
   fst (check_duplicate_claim example_env example_claim unreachable_world) = Inl ConnectionError \<and>
   fst (submit_claim example_env example_claim unreachable_world) = Inl ConnectionError \<and>
   background_tasks (snd (submit_claim example_env example_claim unreachable_world)) = [] \<and>
   sets (redis_client (snd (submit_claim example_env example_claim unreachable_world)))
     (recent_claims_key example_claim) = None"
proof -
  have h: "\<not> reachable (redis_client unreachable_world)"
    by (simp add: example_defs)
  from submit_claim_unreachable [OF h, of example_env example_claim] h
  show ?thesis by (simp add: example_defs)
qed

text \<open>
  Claim C3, as the specification states it, fails: with the server unreachable,
  the duplicate check and the submission of the example claim both end in the
  connection error, not in a response routed to review.
\<close>

theorem submit_claim_unreachable_counterexample:
  "\<not> reachable (redis_client unreachable_world) \<and>
   fst (check_duplicate_claim example_env example_claim unreachable_world) = Inl ConnectionError \<and>
   fst (submit_claim example_env example_claim unreachable_world) = Inl ConnectionError"
  by (simp add: service_defs act_defs redis_defs collab_defs example_defs Let_def)




text \<open>
  The duplicate check on a reachable server. The claim is compared with the
  members of the claimant's set that the server returns. It is reported as a
  duplicate exactly when one of them has a similarity above 0.85, and the server
  is then left as it was. Otherwise the claim is a member of the set when the
  check returns, and in a submission that is answered and not flagged the
  \<^verbatim>\<open>sadd\<close> and \<^verbatim>\<open>expire\<close> commands come right before the one call of the fraud
  scoring.
\<close>

lemma check_duplicate_claim_index:
  assumes "reachable (redis_client w)"
  shows "(\<exists>dup w1. check_duplicate_claim E claim w = (Inr dup, w1) \<and>
           (is_duplicate dup \<longleftrightarrow>
              (\<exists>e \<in> set (members (redis_client w) (recent_claims_key claim)).
                 calculate_similarity E claim e > 0.85)) \<and>
           (is_duplicate dup \<longrightarrow> redis_client w1 = redis_client w) \<and>
           (\<not> is_duplicate dup \<longrightarrow>
              claim \<in> set (members (redis_client w1) (recent_claims_key claim))))
       \<and> (\<forall>w0 r w'. submit_claim E claim w0 = (Inr r, w') \<and> status_resp r \<noteq> ''flagged'' \<longrightarrow>
            claim \<in> set (members (redis_client w') (recent_claims_key claim)) \<and>
            (\<exists>pre post. calls w' = calls w0 @ pre @
                 [Redis_sadd (recent_claims_key claim) claim,
                  Redis_expire (recent_claims_key claim) 2592000,
                  Fraud_evaluate claim] @ post \<and>
               (\<forall>c. Fraud_evaluate c \<notin> set pre)))"
proof
  let ?key = "recent_claims_key claim"
  let ?ms = "members (redis_client w) ?key"
  show "\<exists>dup w1. check_duplicate_claim E claim w = (Inr dup, w1) \<and>
           (is_duplicate dup \<longleftrightarrow> (\<exists>e \<in> set ?ms. calculate_similarity E claim e > 0.85)) \<and>
           (is_duplicate dup \<longrightarrow> redis_client w1 = redis_client w) \<and>
           (\<not> is_duplicate dup \<longrightarrow> claim \<in> set (members (redis_client w1) ?key))"
  proof (cases "find_duplicate (calculate_similarity E) claim ?ms")
    case None
    then have no: "\<not> (\<exists>e \<in> set ?ms. calculate_similarity E claim e > 0.85)"
      by (simp add: find_duplicate_None)
    from None check_duplicate_claim_reachable [OF assms, of E claim]
    obtain w1 where d: "check_duplicate_claim E claim w =
                          (Inr \<lparr>is_duplicate = False, similarity = None\<rparr>, w1)"
      by simp
    from check_duplicate_claim_not_duplicate [OF assms d]
    have "claim \<in> set (members (redis_client w1) ?key)" by simp
    with d no show ?thesis by simp
  next
    case (Some s)
    from find_duplicate_Some [OF Some]
    have "\<exists>e \<in> set ?ms. calculate_similarity E claim e > 0.85"
      by blast
    with Some check_duplicate_claim_reachable [OF assms, of E claim]
    show ?thesis by auto
  qed
next
  let ?key = "recent_claims_key claim"
  show "\<forall>w0 r w'. submit_claim E claim w0 = (Inr r, w') \<and> status_resp r \<noteq> ''flagged'' \<longrightarrow>
            claim \<in> set (members (redis_client w') ?key) \<and>
            (\<exists>pre post. calls w' = calls w0 @ pre @
                 [Redis_sadd ?key claim, Redis_expire ?key 2592000, Fraud_evaluate claim] @ post \<and>
               (\<forall>c. Fraud_evaluate c \<notin> set pre))"
  proof (intro allI impI, elim conjE)
    fix w0 r w'
    assume s: "submit_claim E claim w0 = (Inr r, w')" and nf: "status_resp r \<noteq> ''flagged''"
    from submit_claim_scored [OF s nf] obtain pol w1 w2 post where
      v: "validate_policy E (policy_id claim) (user_id claim) w0 = (Inr (Some pol), w1)" and
      d: "check_duplicate_claim E claim w1 = (Inr \<lparr>is_duplicate = False, similarity = None\<rparr>, w2)" and
      rc: "redis_client w' = redis_client w2" and
      c: "calls w' = calls w2 @ Fraud_evaluate claim # post"
      by blast
    from validate_policy_frame [OF v] obtain cs1 where
      c1: "calls w1 = calls w0 @ cs1" and nofe: "\<forall>c. Fraud_evaluate c \<notin> set cs1" by blast
    from v have "reachable (redis_client w0)" by (rule validate_policy_Inr_reachable)
    with validate_policy_frame [OF v] have r1: "reachable (redis_client w1)" by simp
    from check_duplicate_claim_not_duplicate [OF r1 d]
    have c2: "calls w2 = calls w1 @ [Redis_smembers ?key, Redis_sadd ?key claim, Redis_expire ?key 2592000]"
      and m2: "claim \<in> set (members (redis_client w2) ?key)"
      by simp_all
    from c c1 c2 have "calls w' = calls w0 @ (cs1 @ [Redis_smembers ?key]) @
        [Redis_sadd ?key claim, Redis_expire ?key 2592000, Fraud_evaluate claim] @ post"
      by simp
    moreover from nofe have "\<forall>c. Fraud_evaluate c \<notin> set (cs1 @ [Redis_smembers ?key])" by simp
    ultimately have "\<exists>pre post. calls w' = calls w0 @ pre @
                 [Redis_sadd ?key claim, Redis_expire ?key 2592000, Fraud_evaluate claim] @ post \<and>
               (\<forall>c. Fraud_evaluate c \<notin> set pre)"
      by blast
    with m2 rc show "claim \<in> set (members (redis_client w') ?key) \<and>
            (\<exists>pre post. calls w' = calls w0 @ pre @
                 [Redis_sadd ?key claim, Redis_expire ?key 2592000, Fraud_evaluate claim] @ post \<and>
               (\<forall>c. Fraud_evaluate c \<notin> set pre))"
      by simp
  qed
qed

text \<open>
  Claim C4 fails on the code at the expiry of entries. The docstring of
  \<^verbatim>\<open>check_duplicate_claim\<close> says that duplicates are looked for within 30 days, but
  \<^verbatim>\<open>expire\<close> sets the time to live of the claimant's whole set again at every
  registration, so an entry outlives its 30 days whenever a later claim was
  registered in between. The example claim is registered at time 0; a second
  claim of the same claimant, different in type, date, description, amount and
  place, is registered at time 2000000; a third
  claim with the description of the first is checked at time 3000000, more than
  2592000 seconds after the first was registered, and is reported as its
  duplicate. Without the second claim the set has expired by then and the third
  claim is registered as an original.
\<close>

theorem check_duplicate_claim_stale_entry:
  "members (redis_client (snd (check_duplicate_claim example_env example_claim fresh_world)))
      ''user_claims:usr_987654321:30d'' = [example_claim] \<and>
   clock (redis_client fresh_world) = 0 \<and>
   fst (check_duplicate_claim example_env (example_claim\<lparr>claim_id := ''clm_0003''\<rparr>)
     (at_time 3000000
       (snd (check_duplicate_claim example_env
          (example_claim\<lparr>claim_id := ''clm_0002'', claim_type := Theft,
             incident_date := 1707000000, description := ''Bicycle stolen from garage'',
             estimated_amount := 450,
             location := [(''lat'', 34.0522), (''lng'', - 118.2437)]\<rparr>)
          (at_time 2000000
            (snd (check_duplicate_claim example_env example_claim fresh_world)))))))
     = Inr \<lparr>is_duplicate = True, similarity = Some 1\<rparr> \<and>
   (0::nat) + 2592000 < 3000000 \<and>
   fst (check_duplicate_claim example_env (example_claim\<lparr>claim_id := ''clm_0003''\<rparr>)
     (at_time 3000000
       (snd (check_duplicate_claim example_env example_claim fresh_world))))
     = Inr \<lparr>is_duplicate = False, similarity = None\<rparr>"
  by (simp add: service_defs act_defs redis_defs collab_defs example_defs at_time_def Let_def)

text \<open>
  Claim C5. The payout is the smaller of the estimated amount and the coverage
  limit of the claim type (0 when the policy has none), less the deductible, and
  0 when that is negative: 3000 for amount 3500, limit 5000 and deductible 500,
  and 0 for amount 100 and deductible 500. A submission answered
  \<^verbatim>\<open>instant_approved\<close> reports that payout, computed from the validated policy,
  and dispatches one payout task for it.
\<close>

theorem instant_approval_payout:
  "calculate_payout claim pol =
     max (min (estimated_amount claim)
              (dict_get (coverage_limits pol) (claim_type_str (claim_type claim)) 0)
          - deductible pol) 0
   \<and> 0 \<le> calculate_payout claim pol
   \<and> (estimated_amount claim = 3500 \<and>
      map_of (coverage_limits pol) (claim_type_str (claim_type claim)) = Some 5000 \<and>
      deductible pol = 500 \<longrightarrow> calculate_payout claim pol = 3000)
   \<and> (estimated_amount claim = 100 \<and> deductible pol = 500 \<longrightarrow> calculate_payout claim pol = 0)
   \<and> (\<forall>E w r w'. submit_claim E claim w = (Inr r, w') \<and> status_resp r = ''instant_approved'' \<longrightarrow>
        (\<exists>p. fst (validate_policy E (policy_id claim) (user_id claim) w) = Inr (Some p) \<and>
             payout_amount r = Some (calculate_payout claim p) \<and>
             background_tasks w' =
               background_tasks w @ [Process_instant_payout claim (calculate_payout claim p)]))"
proof (intro conjI)
  show "calculate_payout claim pol =
     max (min (estimated_amount claim)
              (dict_get (coverage_limits pol) (claim_type_str (claim_type claim)) 0)
          - deductible pol) 0"
    by (simp add: calculate_payout_def Let_def)
  show "0 \<le> calculate_payout claim pol"
    by (simp add: calculate_payout_def Let_def)
  show "estimated_amount claim = 3500 \<and>
      map_of (coverage_limits pol) (claim_type_str (claim_type claim)) = Some 5000 \<and>
      deductible pol = 500 \<longrightarrow> calculate_payout claim pol = 3000"
    by (simp add: calculate_payout_def dict_get_def Let_def)
  show "estimated_amount claim = 100 \<and> deductible pol = 500 \<longrightarrow> calculate_payout claim pol = 0"
    by (auto simp: calculate_payout_def Let_def)
  show "\<forall>E w r w'. submit_claim E claim w = (Inr r, w') \<and> status_resp r = ''instant_approved'' \<longrightarrow>
        (\<exists>p. fst (validate_policy E (policy_id claim) (user_id claim) w) = Inr (Some p) \<and>
             payout_amount r = Some (calculate_payout claim p) \<and>
             background_tasks w' =
               background_tasks w @ [Process_instant_payout claim (calculate_payout claim p)])"
  proof (intro allI impI, elim conjE)
    fix E w r w'
    assume s: "submit_claim E claim w = (Inr r, w')" and a: "status_resp r = ''instant_approved''"
    from submit_claim_tasks [OF s] a
    show "\<exists>p. fst (validate_policy E (policy_id claim) (user_id claim) w) = Inr (Some p) \<and>
             payout_amount r = Some (calculate_payout claim p) \<and>
             background_tasks w' =
               background_tasks w @ [Process_instant_payout claim (calculate_payout claim p)]"
      by auto
  qed
qed

text \<open>
  Witness for C5: the example claim (amount 3500) and the same claim with amount
  100, against the example policy (limit 5000 for water damage, deductible 500).
\<close>

theorem instant_approval_payout_witness:
  "calculate_payout example_claim example_policy = 3000 \<and>
   calculate_payout (example_claim\<lparr>estimated_amount := 100\<rparr>) example_policy = 0 \<and>
   status_resp (projr (fst (submit_claim example_env example_claim fresh_world))) = ''instant_approved'' \<and>
   payout_amount (projr (fst (submit_claim example_env example_claim fresh_world))) = Some 3000 \<and>
   background_tasks (snd (submit_claim example_env example_claim fresh_world)) =
     [Process_instant_payout example_claim 3000]"
proof -
  let ?w' = "snd (submit_claim example_env example_claim fresh_world)"
  let ?res = "fst (submit_claim example_env example_claim fresh_world)"
  have a: "estimated_amount example_claim = 3500 \<and>
           map_of (coverage_limits example_policy) (claim_type_str (claim_type example_claim)) = Some 5000 \<and>
           deductible example_policy = 500"
    by (simp add: example_defs)
  have b: "estimated_amount (example_claim\<lparr>estimated_amount := 100\<rparr>) = 100 \<and>
           deductible example_policy = 500"
    by (simp add: example_defs)
  note big = instant_approval_payout [of example_claim example_policy]
  note small = instant_approval_payout [of "example_claim\<lparr>estimated_amount := 100\<rparr>" example_policy]
  from big a have p1: "calculate_payout example_claim example_policy = 3000" by blast
  from small b have p2: "calculate_payout (example_claim\<lparr>estimated_amount := 100\<rparr>) example_policy = 0"
    by blast
  have st: "\<exists>r. ?res = Inr r \<and> status_resp r = ''instant_approved''"
    by (simp add: service_defs act_defs redis_defs collab_defs example_defs Let_def)
  then obtain r where r: "?res = Inr r" and ap: "status_resp r = ''instant_approved''" by blast
  from r have s: "submit_claim example_env example_claim fresh_world = (Inr r, ?w')"
    by (simp add: prod_eq_iff)
  have v: "fst (validate_policy example_env (policy_id example_claim) (user_id example_claim) fresh_world)
             = Inr (Some example_policy)"
    by (simp add: service_defs act_defs redis_defs collab_defs example_env_def example_claim_def
          empty_redis_def fresh_world_def Let_def)
  have bt: "background_tasks fresh_world = []" by (simp add: fresh_world_def)
  from big s ap obtain p where
    "fst (validate_policy example_env (policy_id example_claim) (user_id example_claim) fresh_world)
       = Inr (Some p)"
    and pa: "payout_amount r = Some (calculate_payout example_claim p)"
    and ts: "background_tasks ?w' =
               background_tasks fresh_world @ [Process_instant_payout example_claim (calculate_payout example_claim p)]"
    by blast
  with v have "p = example_policy" by simp
  with pa ts p1 p2 bt r ap show ?thesis by simp
qed

end
